theory Spec2Isabelle
  imports Main
begin

section \<open>GoBarber: the appointment controller\<close>

text \<open>
  A shallow embedding of \<^verbatim>\<open>backend/src/app/controllers/AppointmentController.js\<close>:
  the handlers \<^verbatim>\<open>store\<close> (booking) and \<^verbatim>\<open>delete\<close> (cancellation).

  Instants are JavaScript \<^verbatim>\<open>Date\<close> values: integer milliseconds since the epoch.
  The database, the notification collection and the job queue are explicit state, passed
  in and returned. A handler answers with a JSON body, with an error status, or it throws.
\<close>

subsection \<open>date-fns\<close>

text \<open>
  date-fns computes in the local time of the server. The zone is taken as a fixed offset
  \<open>tz\<close> in milliseconds (local time is UTC plus \<open>tz\<close>), so every local day has
  24 hours: a daylight-saving change is not represented. The locale-aware
  \<^verbatim>\<open>format\<close> is a parameter: only its result is concatenated into a notification.
\<close>

record env =
  tz :: int
  format_pt :: "int \<Rightarrow> string"

definition startOfHour :: "env \<Rightarrow> int \<Rightarrow> int" where
  "startOfHour e t = t - (t + tz e) mod 3600000"

definition startOfDay :: "env \<Rightarrow> int \<Rightarrow> int" where
  "startOfDay e t = t - (t + tz e) mod 86400000"

definition endOfDay :: "env \<Rightarrow> int \<Rightarrow> int" where
  "endOfDay e t = startOfDay e t + 86399999"

definition subHours :: "int \<Rightarrow> int \<Rightarrow> int" where
  "subHours t n = t - n * 3600000"

definition isBefore :: "int \<Rightarrow> int \<Rightarrow> bool" where
  "isBefore a b = (a < b)"

subsection \<open>Tables\<close>

text \<open>
  The columns the controller reads and writes. The primary key \<^verbatim>\<open>id\<close> is
  \<open>u_id\<close> for a user and \<open>a_id\<close> for an appointment; the field \<^verbatim>\<open>user\<close>
  of a notification is \<open>n_user\<close>.
\<close>

record user =
  u_id :: nat
  u_name :: string
  u_email :: string
  u_provider :: bool

record appointment =
  a_id :: nat
  user_id :: nat
  provider_id :: nat
  date :: int
  canceled_at :: "int option"

record notification =
  content :: string
  n_user :: nat

text \<open>
  An appointment fetched with its two associations, as \<^verbatim>\<open>delete\<close> loads it:
  \<^verbatim>\<open>provider\<close> with name and email, \<^verbatim>\<open>user\<close> with name.
\<close>

record loaded =
  row :: appointment
  inc_provider :: "(string \<times> string) option"
  inc_user :: "string option"

datatype job = CancelationMail loaded

record db =
  users :: "user list"
  appointments :: "appointment list"
  next_id :: nat
  notifications :: "notification list"
  jobs :: "job list"

subsection \<open>Requests and responses\<close>

text \<open>
  The value of \<^verbatim>\<open>provider_id\<close> in the JSON body, as the handler destructures it:
  a number, or a string of the decimal digits of a number. \<^verbatim>\<open>Yup.number()\<close> accepts
  both, since it casts before it validates; the handler goes on with the value that was
  sent, not with the cast one.

  \<open>cast_number\<close> is the number of the value: what the schema casts it to, and what the
  database reads where the value is a primary or foreign key. \<open>strict_equal\<close> is
  \<^verbatim>\<open>===\<close> against \<^verbatim>\<open>req.userId\<close>, a number: a string is never strictly equal to
  a number.
\<close>

datatype id_value = Number nat | NumericString nat

fun cast_number :: "id_value \<Rightarrow> nat" where
  "cast_number (Number n) = n"
| "cast_number (NumericString n) = n"

fun strict_equal :: "id_value \<Rightarrow> nat \<Rightarrow> bool" where
  "strict_equal (Number n) m = (n = m)"
| "strict_equal (NumericString n) m = False"

text \<open>
  The body of a booking request: \<open>b_provider_id\<close> is \<open>Some v\<close> when
  \<^verbatim>\<open>provider_id\<close> is the value \<open>v\<close>, and \<open>None\<close> when it is missing or is
  nothing the schema takes for a number. \<open>b_date\<close> is \<open>Some t\<close> when \<^verbatim>\<open>date\<close>
  is an ISO-8601 string of the instant \<open>t\<close> (what \<^verbatim>\<open>parseISO\<close> returns for it), and
  \<open>None\<close> when it is missing or is no date. A date string that is not ISO-8601, which
  \<^verbatim>\<open>Yup.date()\<close> may accept and \<^verbatim>\<open>parseISO\<close> reads as an invalid date, is not
  represented.
\<close>

record body =
  b_provider_id :: "id_value option"
  b_date :: "int option"

datatype error =
    ValidationError
  | SelfBooking
  | NotAProvider
  | PastDate
  | SlotTaken
  | DuplicateSameDayBooking
  | Forbidden
  | TooLateToCancel
  | AlreadyCanceled

datatype exn = TypeError | QueueError

datatype 'a response = Json 'a | Reject error | Thrown exn

text \<open>The status and the message each error is sent with.\<close>

fun http_status :: "error \<Rightarrow> nat" where
  "http_status ValidationError = 400"
| "http_status SelfBooking = 400"
| "http_status NotAProvider = 400"
| "http_status PastDate = 400"
| "http_status SlotTaken = 400"
| "http_status DuplicateSameDayBooking = 400"
| "http_status Forbidden = 401"
| "http_status TooLateToCancel = 401"
| "http_status AlreadyCanceled = 401"

fun error_message :: "error \<Rightarrow> string" where
  "error_message ValidationError = ''Validation Fail!!!''"
| "error_message SelfBooking = ''You can not create a appointment with yourself!!!''"
| "error_message NotAProvider = ''You can only create appointments with providers!!!''"
| "error_message PastDate = ''Past date are not permited!!!''"
| "error_message SlotTaken = ''Appointment date not available!!!''"
| "error_message DuplicateSameDayBooking = ''You already have a appointment that day!!!''"
| "error_message Forbidden = ''You don't have permission to cancel this appointment!!!''"
| "error_message TooLateToCancel = ''You can only cancel appointment 2 hours in advance!!!''"
| "error_message AlreadyCanceled = ''This appointment Already canceled!!!''"

subsection \<open>Queries\<close>

text \<open>\<^verbatim>\<open>schema.isValid(req.body)\<close>: both fields are required.\<close>

definition isValid :: "body \<Rightarrow> bool" where
  "isValid b = (b_provider_id b \<noteq> None \<and> b_date b \<noteq> None)"

text \<open>\<^verbatim>\<open>User.findOne({ where: { id: provider_id, provider: true } })\<close>\<close>

definition isProvider :: "db \<Rightarrow> nat \<Rightarrow> user option" where
  "isProvider s pid = find (\<lambda>u. u_id u = pid \<and> u_provider u) (users s)"

text \<open>The active appointment of the provider at the hour, if there is one.\<close>

definition checkAvailability :: "db \<Rightarrow> nat \<Rightarrow> int \<Rightarrow> appointment option" where
  "checkAvailability s pid hourStart =
     find (\<lambda>a. provider_id a = pid \<and> canceled_at a = None \<and> date a = hourStart)
       (appointments s)"

text \<open>
  An active appointment of the client whose date is between the start and the end of the
  day of the parsed date, both included (\<^verbatim>\<open>Op.between\<close>).
\<close>

definition checkUserHaveAppointment :: "env \<Rightarrow> db \<Rightarrow> nat \<Rightarrow> int \<Rightarrow> appointment option" where
  "checkUserHaveAppointment e s userId parsedDate =
     find (\<lambda>a. user_id a = userId \<and> canceled_at a = None
                \<and> startOfDay e parsedDate \<le> date a \<and> date a \<le> endOfDay e parsedDate)
       (appointments s)"

text \<open>\<^verbatim>\<open>Appointment.create\<close>: the table assigns the next primary key.\<close>

definition create :: "db \<Rightarrow> nat \<Rightarrow> nat \<Rightarrow> int \<Rightarrow> appointment \<times> db" where
  "create s userId pid d =
     (let a = \<lparr>a_id = next_id s, user_id = userId, provider_id = pid, date = d,
               canceled_at = None\<rparr>
      in (a, s\<lparr>appointments := appointments s @ [a], next_id := Suc (next_id s)\<rparr>))"

definition findUser :: "db \<Rightarrow> nat \<Rightarrow> user option" where
  "findUser s k = find (\<lambda>u. u_id u = k) (users s)"

text \<open>\<^verbatim>\<open>Appointment.findByPk\<close> with the provider and the user included.\<close>

definition findByPk :: "db \<Rightarrow> nat \<Rightarrow> loaded option" where
  "findByPk s k =
     (case find (\<lambda>a. a_id a = k) (appointments s) of
        None \<Rightarrow> None
      | Some a \<Rightarrow>
          Some \<lparr>row = a,
                inc_provider = map_option (\<lambda>u. (u_name u, u_email u)) (findUser s (provider_id a)),
                inc_user = map_option u_name (findUser s (user_id a))\<rparr>)"

text \<open>\<^verbatim>\<open>appointment.save()\<close>: the row with the primary key of the instance is written.\<close>

definition save :: "db \<Rightarrow> appointment \<Rightarrow> db" where
  "save s a = s\<lparr>appointments := map (\<lambda>b. if a_id b = a_id a then a else b) (appointments s)\<rparr>"

text \<open>
  Modelled from the spec: \<^verbatim>\<open>lib/Queue\<close> is not among the sources. \<^verbatim>\<open>enqueue\<close>
  appends a job and returns; it may fail (the flag \<open>up\<close> is false), and then the
  awaited call throws.
\<close>

definition Queue_add :: "bool \<Rightarrow> job list \<Rightarrow> job \<Rightarrow> job list option" where
  "Queue_add up q j = (if up then Some (q @ [j]) else None)"

subsection \<open>The handlers\<close>

text \<open>
  \<^verbatim>\<open>store(req, res)\<close>: \<open>userId\<close> is \<^verbatim>\<open>req.userId\<close>, \<open>now\<close> is the value of
  \<^verbatim>\<open>new Date()\<close>. The test against \<^verbatim>\<open>req.userId\<close> is \<^verbatim>\<open>===\<close> on the value
  of the body; the queries and the two writes hand the value to the database, which reads
  its number. After the appointment is created the client is read for the text of the
  notification; \<^verbatim>\<open>user.name\<close> throws when there is no such user.
\<close>

definition store :: "env \<Rightarrow> db \<Rightarrow> nat \<Rightarrow> body \<Rightarrow> int \<Rightarrow> appointment response \<times> db" where
  "store e s userId b now =
     (if \<not> isValid b then (Reject ValidationError, s)
      else
        let v = the (b_provider_id b); d = the (b_date b); pid = cast_number v in
        if strict_equal v userId then (Reject SelfBooking, s)
        else if isProvider s pid = None then (Reject NotAProvider, s)
        else
          let hourStart = startOfHour e d in
          if isBefore hourStart now then (Reject PastDate, s)
          else if checkAvailability s pid hourStart \<noteq> None then (Reject SlotTaken, s)
          else if checkUserHaveAppointment e s userId d \<noteq> None
            then (Reject DuplicateSameDayBooking, s)
          else
            let (appointment, s1) = create s userId pid hourStart in
            (case findUser s1 userId of
               None \<Rightarrow> (Thrown TypeError, s1)
             | Some u \<Rightarrow>
                 (Json appointment,
                  s1\<lparr>notifications := notifications s1 @
                       [\<lparr>content = ''Novo agendamento de '' @ u_name u @ '' para ''
                                    @ format_pt e hourStart,
                         n_user = pid\<rparr>]\<rparr>)))"

text \<open>
  \<^verbatim>\<open>delete(req, res)\<close>: \<open>k\<close> is \<^verbatim>\<open>req.params.id\<close>. The clock is read twice:
  \<open>now\<close> for the two-hour test, \<open>now'\<close> for the stamp. \<^verbatim>\<open>findByPk\<close> answers
  \<^verbatim>\<open>null\<close> for an unknown key and the handler reads \<^verbatim>\<open>appointment.user_id\<close>
  at once, which throws. No handler catches anything: a failed \<^verbatim>\<open>Queue.add\<close> leaves
  the handler before \<^verbatim>\<open>res.json\<close>.
\<close>

definition delete :: "bool \<Rightarrow> db \<Rightarrow> nat \<Rightarrow> nat \<Rightarrow> int \<Rightarrow> int \<Rightarrow> loaded response \<times> db" where
  "delete up s userId k now now' =
     (case findByPk s k of
        None \<Rightarrow> (Thrown TypeError, s)
      | Some appointment \<Rightarrow>
          if user_id (row appointment) \<noteq> userId then (Reject Forbidden, s)
          else
            let dateWithSub = subHours (date (row appointment)) 2 in
            if isBefore dateWithSub now then (Reject TooLateToCancel, s)
            else if canceled_at (row appointment) \<noteq> None then (Reject AlreadyCanceled, s)
            else
              let appointment' = appointment\<lparr>row := (row appointment)\<lparr>canceled_at := Some now'\<rparr>\<rparr>;
                  s1 = save s (row appointment')
              in (case Queue_add up (jobs s1) (CancelationMail appointment') of
                    None \<Rightarrow> (Thrown QueueError, s1)
                  | Some q \<Rightarrow> (Json appointment', s1\<lparr>jobs := q\<rparr>)))"

subsection \<open>Sequences of requests\<close>

text \<open>
  Requests are served one after the other, each on the state the one before left,
  whatever it answered. \<open>init\<close> is a database with its users and no appointment yet.
\<close>

datatype call =
    Store nat body int
  | Delete bool nat nat int int

fun step :: "env \<Rightarrow> db \<Rightarrow> call \<Rightarrow> db" where
  "step e s (Store userId b now) = snd (store e s userId b now)"
| "step e s (Delete up userId k now now') = snd (delete up s userId k now now')"

definition run :: "env \<Rightarrow> db \<Rightarrow> call list \<Rightarrow> db" where
  "run e s cs = foldl (step e) s cs"

definition init :: "user list \<Rightarrow> db" where
  "init us = \<lparr>users = us, appointments = [], next_id = 1, notifications = [], jobs = []\<rparr>"

subsection \<open>Invariants\<close>

definition active :: "appointment \<Rightarrow> bool" where
  "active a = (canceled_at a = None)"

text \<open>The slots in use: provider and date of every active row, one entry per row.\<close>

definition slots :: "db \<Rightarrow> (nat \<times> int) list" where
  "slots s = map (\<lambda>a. (provider_id a, date a)) (filter active (appointments s))"

text \<open>No two active rows have the same provider and the same date.\<close>

definition slot_exclusive :: "db \<Rightarrow> bool" where
  "slot_exclusive s = distinct (slots s)"

text \<open>The primary key: no two rows with the same \<open>a_id\<close>, all below the next key.\<close>

definition primary_key :: "db \<Rightarrow> bool" where
  "primary_key s =
     (distinct (map a_id (appointments s)) \<and> list_all (\<lambda>a. a_id a < next_id s) (appointments s))"

subsection \<open>The order of the checks, as specified\<close>

text \<open>
  The five checks of a booking in the order of the specification, each with the reason
  it rejects with: the flag is true when the check passes. The first check that fails
  decides.
\<close>

definition checks :: "env \<Rightarrow> db \<Rightarrow> nat \<Rightarrow> nat \<Rightarrow> int \<Rightarrow> int \<Rightarrow> (bool \<times> error) list" where
  "checks e s clientId providerId requestedTime now =
     [(providerId \<noteq> clientId, SelfBooking),
      (list_ex (\<lambda>u. u_id u = providerId \<and> u_provider u) (users s), NotAProvider),
      (\<not> startOfHour e requestedTime < now, PastDate),
      (\<not> list_ex (\<lambda>a. active a \<and> provider_id a = providerId
                        \<and> date a = startOfHour e requestedTime) (appointments s), SlotTaken),
      (\<not> list_ex (\<lambda>a. active a \<and> user_id a = clientId
                        \<and> startOfDay e requestedTime \<le> date a
                        \<and> date a \<le> endOfDay e requestedTime) (appointments s),
       DuplicateSameDayBooking)]"

fun first_failure :: "(bool \<times> error) list \<Rightarrow> error option" where
  "first_failure [] = None"
| "first_failure ((ok, r) # cs) = (if ok then first_failure cs else Some r)"

subsection \<open>A small database\<close>

text \<open>
  Two clients (1 and 2) and two providers (3 and 4), the server on UTC. The instant
  \<open>1736517600000\<close> is 2025-01-10T14:00:00Z.
\<close>

definition env0 :: env where
  "env0 = \<lparr>tz = 0, format_pt = (\<lambda>t. ''dia 10 de janeiro, 14:00h'')\<rparr>"

definition users0 :: "user list" where
  "users0 =
     [\<lparr>u_id = 1, u_name = ''Ana'', u_email = ''ana@example.com'', u_provider = False\<rparr>,
      \<lparr>u_id = 2, u_name = ''Bruno'', u_email = ''bruno@example.com'', u_provider = False\<rparr>,
      \<lparr>u_id = 3, u_name = ''Paula'', u_email = ''paula@example.com'', u_provider = True\<rparr>,
      \<lparr>u_id = 4, u_name = ''Quim'', u_email = ''quim@example.com'', u_provider = True\<rparr>]"

text \<open>Client 1 has booked provider 3 at 14:00.\<close>

definition booked :: appointment where
  "booked = \<lparr>a_id = 1, user_id = 1, provider_id = 3, date = 1736517600000, canceled_at = None\<rparr>"

definition db1 :: db where
  "db1 = \<lparr>users = users0, appointments = [booked], next_id = 2, notifications = [], jobs = []\<rparr>"

text \<open>The same booking, canceled at 09:00 of that day.\<close>

definition db2 :: db where
  "db2 = db1\<lparr>appointments := [booked\<lparr>canceled_at := Some 1736499600000\<rparr>]\<rparr>"

text \<open>The booking as \<^verbatim>\<open>delete\<close> loads it, and a request for provider 3 at 14:30.\<close>

definition booked_loaded :: loaded where
  "booked_loaded = \<lparr>row = booked, inc_provider = Some (''Paula'', ''paula@example.com''),
                     inc_user = Some ''Ana''\<rparr>"

definition request0 :: body where
  "request0 = \<lparr>b_provider_id = Some (Number 3), b_date = Some 1736519400000\<rparr>"

text \<open>A request of client 2 for provider 3 at 15:30.\<close>

definition request1 :: body where
  "request1 = \<lparr>b_provider_id = Some (Number 3), b_date = Some 1736523000000\<rparr>"

text \<open>
  Provider 3 asks for an appointment with provider 3 at 14:30, the key sent as the
  string \<^verbatim>\<open>"3"\<close>.
\<close>

definition request_self :: body where
  "request_self = \<lparr>b_provider_id = Some (NumericString 3), b_date = Some 1736519400000\<rparr>"

section \<open>Properties\<close>

subsection \<open>Evaluation of the examples\<close>

lemmas examples = env0_def users0_def booked_def db1_def db2_def booked_loaded_def request0_def
  request1_def request_self_def init_def

lemmas evaluate_store = store_def isValid_def isProvider_def isBefore_def startOfHour_def
  startOfDay_def endOfDay_def checkAvailability_def checkUserHaveAppointment_def create_def
  findUser_def Let_def

lemma findByPk_db1: "findByPk db1 1 = Some booked_loaded"
  by (simp add: findByPk_def findUser_def examples)

lemma findByPk_db2:
  "findByPk db2 1 = Some (booked_loaded\<lparr>row := booked\<lparr>canceled_at := Some 1736499600000\<rparr>\<rparr>)"
  by (simp add: findByPk_def findUser_def examples)

subsection \<open>What a request leaves behind\<close>

lemma store_shape:
  "snd (store e s userId b now) = s \<or>
   (\<exists>pid d. checkAvailability s pid (startOfHour e d) = None
      \<and> appointments (snd (store e s userId b now)) =
          appointments s @
               [\<lparr>a_id = next_id s, user_id = userId, provider_id = pid,
                 date = startOfHour e d, canceled_at = None\<rparr>]
      \<and> next_id (snd (store e s userId b now)) = Suc (next_id s))"
  by (auto simp: store_def Let_def create_def isValid_def split: if_splits option.splits prod.splits)

lemma find_Some_holds: "find P xs = Some x \<Longrightarrow> x \<in> set xs \<and> P x"
  by (induction xs) (auto split: if_splits)

lemma findByPk_Some:
  assumes "findByPk s k = Some ap"
  shows "row ap \<in> set (appointments s)" and "a_id (row ap) = k"
    and "find (\<lambda>a. a_id a = k) (appointments s) = Some (row ap)"
proof -
  from assms obtain a where a: "find (\<lambda>a. a_id a = k) (appointments s) = Some a"
    and ap: "row ap = a"
    by (auto simp: findByPk_def split: option.splits)
  from a ap show "find (\<lambda>a. a_id a = k) (appointments s) = Some (row ap)" by simp
  from find_Some_holds [OF a] ap show "row ap \<in> set (appointments s)" and "a_id (row ap) = k"
    by simp_all
qed

lemma delete_shape:
  "snd (delete up s userId k now now') = s \<or>
   (\<exists>a. a \<in> set (appointments s) \<and> a_id a = k
      \<and> appointments (snd (delete up s userId k now now')) =
          map (\<lambda>b. if a_id b = k then a\<lparr>canceled_at := Some now'\<rparr> else b) (appointments s)
      \<and> next_id (snd (delete up s userId k now now')) = next_id s)"
proof (cases "findByPk s k")
  case None
  then show ?thesis by (simp add: delete_def)
next
  case (Some ap)
  from findByPk_Some [OF Some] show ?thesis
    by (auto simp: delete_def Some Let_def save_def Queue_add_def)
qed

lemma filter_active_cancel:
  "filter active (map (\<lambda>b. if a_id b = k then a\<lparr>canceled_at := Some t\<rparr> else b) xs)
   = filter (\<lambda>b. a_id b \<noteq> k) (filter active xs)"
  by (induction xs) (auto simp: active_def)

lemma store_slot_exclusive:
  assumes "slot_exclusive s"
  shows "slot_exclusive (snd (store e s userId b now))"
proof -
  consider "snd (store e s userId b now) = s"
    | pid d where "checkAvailability s pid (startOfHour e d) = None"
        "appointments (snd (store e s userId b now)) =
          appointments s @
               [\<lparr>a_id = next_id s, user_id = userId, provider_id = pid,
                 date = startOfHour e d, canceled_at = None\<rparr>]"
    using store_shape [of e s userId b now] by blast
  then show ?thesis
  proof cases
    case 1
    with assms show ?thesis by simp
  next
    case 2
    from 2(1) have "(pid, startOfHour e d) \<notin> set (slots s)"
      by (auto simp: checkAvailability_def find_None_iff slots_def active_def)
    with assms show ?thesis
      by (simp add: 2(2) slot_exclusive_def slots_def active_def)
  qed
qed

lemma delete_slot_exclusive:
  assumes "slot_exclusive s"
  shows "slot_exclusive (snd (delete up s userId k now now'))"
  using delete_shape [of up s userId k now now'] assms
  by (auto simp: slot_exclusive_def slots_def filter_active_cancel distinct_map_filter
           simp del: filter_filter)

lemma step_slot_exclusive: "slot_exclusive s \<Longrightarrow> slot_exclusive (step e s c)"
  by (cases c) (simp_all add: store_slot_exclusive delete_slot_exclusive)

lemma run_slot_exclusive: "slot_exclusive s \<Longrightarrow> slot_exclusive (run e s cs)"
  unfolding run_def by (induction cs arbitrary: s) (simp_all add: step_slot_exclusive)

lemma init_slot_exclusive: "slot_exclusive (init us)"
  by (simp add: slot_exclusive_def slots_def init_def)

lemma store_primary_key:
  assumes "primary_key s"
  shows "primary_key (snd (store e s userId b now))"
  using store_shape [of e s userId b now] assms
  by (fastforce simp: primary_key_def list_all_iff less_Suc_eq)

lemma map_a_id_cancel:
  "map a_id (map (\<lambda>b. if a_id b = k then a\<lparr>canceled_at := Some t\<rparr> else b) xs) = map a_id xs"
  if "a_id a = k"
  using that by (induction xs) auto

lemma delete_primary_key:
  assumes "primary_key s"
  shows "primary_key (snd (delete up s userId k now now'))"
proof -
  consider "snd (delete up s userId k now now') = s"
    | a where "a \<in> set (appointments s)" "a_id a = k"
      "appointments (snd (delete up s userId k now now')) =
          map (\<lambda>b. if a_id b = k then a\<lparr>canceled_at := Some now'\<rparr> else b) (appointments s)"
      "next_id (snd (delete up s userId k now now')) = next_id s"
    using delete_shape [of up s userId k now now'] by blast
  then show ?thesis
  proof cases
    case 1
    with assms show ?thesis by simp
  next
    case 2
    have "distinct (map a_id (appointments (snd (delete up s userId k now now'))))"
      unfolding 2(3) map_a_id_cancel [OF 2(2)] using assms by (simp add: primary_key_def)
    moreover have "list_all (\<lambda>a. a_id a < next_id s) (appointments (snd (delete up s userId k now now')))"
      using assms 2(1,2) unfolding 2(3) primary_key_def by (auto simp: list_all_iff)
    ultimately show ?thesis
      by (simp add: primary_key_def 2(4))
  qed
qed

lemma step_primary_key: "primary_key s \<Longrightarrow> primary_key (step e s c)"
  by (cases c) (simp_all add: store_primary_key delete_primary_key)

lemma run_primary_key: "primary_key s \<Longrightarrow> primary_key (run e s cs)"
  unfolding run_def by (induction cs arbitrary: s) (simp_all add: step_primary_key)

lemma init_primary_key: "primary_key (init us)"
  by (simp add: primary_key_def init_def)

lemma find_None_list_ex: "(find P xs = None) = (\<not> list_ex P xs)"
  by (auto simp: find_None_iff list_ex_iff)

lemma find_map_update:
  assumes "find (\<lambda>a. a_id a = k) xs = Some a" and "a_id a' = k"
  shows "find (\<lambda>a. a_id a = k) (map (\<lambda>b. if a_id b = k then a' else b) xs) = Some a'"
  using assms by (induction xs) (auto split: if_splits)

lemma same_key_same_row:
  assumes "distinct (map a_id xs)" and "a \<in> set xs" and "b \<in> set xs" and "a_id a = a_id b"
  shows "a = b"
  using assms by (meson distinct_map inj_onD)

lemma save_only_canceled_at:
  assumes "distinct (map a_id xs)" and "a \<in> set xs" and "a_id a = k"
  shows "map (\<lambda>b. if a_id b = k then a\<lparr>canceled_at := c\<rparr> else b) xs
       = map (\<lambda>b. if a_id b = k then b\<lparr>canceled_at := c\<rparr> else b) xs"
proof (rule map_cong [OF refl])
  fix b assume "b \<in> set xs"
  with assms same_key_same_row [of xs a b]
  show "(if a_id b = k then a\<lparr>canceled_at := c\<rparr> else b) = (if a_id b = k then b\<lparr>canceled_at := c\<rparr> else b)"
    by auto
qed

lemma findUser_save [simp]: "findUser (save s a) u = findUser s u"
  by (simp add: findUser_def save_def)

lemma findByPk_jobs: "findByPk (s\<lparr>jobs := js\<rparr>) k = findByPk s k"
  by (simp add: findByPk_def findUser_def split: option.splits)

lemma findByPk_save:
  assumes "findByPk s k = Some ap"
  shows "findByPk (save s ((row ap)\<lparr>canceled_at := c\<rparr>)) k
       = Some (ap\<lparr>row := (row ap)\<lparr>canceled_at := c\<rparr>\<rparr>)"
proof -
  from assms obtain a where a: "find (\<lambda>a. a_id a = k) (appointments s) = Some a"
    and ap: "ap = \<lparr>row = a,
                inc_provider = map_option (\<lambda>u. (u_name u, u_email u)) (findUser s (provider_id a)),
                inc_user = map_option u_name (findUser s (user_id a))\<rparr>"
    by (auto simp: findByPk_def split: option.splits)
  from find_Some_holds [OF a] have k: "a_id (a\<lparr>canceled_at := c\<rparr>) = k" by simp
  have "find (\<lambda>b. a_id b = k) (appointments (save s (a\<lparr>canceled_at := c\<rparr>)))
        = Some (a\<lparr>canceled_at := c\<rparr>)"
    unfolding save_def using find_map_update [OF a k] k by simp
  then show ?thesis
    by (simp add: findByPk_def ap)
qed

lemma distinct_map_filter_nth:
  assumes "distinct (map f (filter P xs))" and "i < j" and "j < length xs"
    and "P (xs ! i)" and "P (xs ! j)"
  shows "f (xs ! i) \<noteq> f (xs ! j)"
  using assms
proof (induction xs arbitrary: i j)
  case Nil
  then show ?case by simp
next
  case (Cons x xs)
  show ?case
  proof (cases i)
    case 0
    with Cons.prems obtain j' where j: "j = Suc j'" "j' < length xs"
      by (cases j) auto
    with Cons.prems 0 have "xs ! j' \<in> set (filter P xs)" "f x \<notin> f ` set (filter P xs)"
      by auto
    with 0 j show ?thesis by auto
  next
    case (Suc i')
    with Cons.prems obtain j' where j: "j = Suc j'" "i' < j'" "j' < length xs"
      by (cases j) auto
    from Cons.prems have "distinct (map f (filter P xs))"
      by (simp split: if_splits)
    from Cons.IH [OF this j(2,3)] Cons.prems Suc j show ?thesis by simp
  qed
qed

lemma slot_exclusive_nth:
  assumes "slot_exclusive s" and "i < j" and "j < length (appointments s)"
    and "active (appointments s ! i)" and "active (appointments s ! j)"
    and "provider_id (appointments s ! i) = provider_id (appointments s ! j)"
  shows "date (appointments s ! i) \<noteq> date (appointments s ! j)"
  using distinct_map_filter_nth [of "\<lambda>a. (provider_id a, date a)" active "appointments s" i j] assms
  by (simp add: slot_exclusive_def slots_def)

subsection \<open>C1: slot exclusivity\<close>

text \<open>
  Claim C1. Whatever requests are served from a database with no appointment, bookings and
  cancellations alike, no two active appointments have the same provider and the same
  date: the list of slots in use has no repetition, and any two active rows of one
  provider differ in their date. \<^verbatim>\<open>store\<close> keeps the invariant from any state: when
  an active appointment holds the hour of the requested date it rejects and writes nothing,
  with \<open>SlotTaken\<close> once the three earlier checks have passed; when it does not
  reject, the row it appends carries the start of the hour as its date and no
  \<open>canceled_at\<close>.
\<close>

theorem slot_exclusivity:
  "slot_exclusive (run e (init us) cs)
   \<and> (\<forall>i j. i < j \<and> j < length (appointments (run e (init us) cs))
          \<and> active (appointments (run e (init us) cs) ! i)
          \<and> active (appointments (run e (init us) cs) ! j)
          \<and> provider_id (appointments (run e (init us) cs) ! i)
              = provider_id (appointments (run e (init us) cs) ! j)
        \<longrightarrow> date (appointments (run e (init us) cs) ! i)
              \<noteq> date (appointments (run e (init us) cs) ! j))
   \<and> (slot_exclusive s \<longrightarrow> slot_exclusive (snd (store e s userId b now)))
   \<and> (b_provider_id b = Some v \<and> b_date b = Some d
        \<and> checkAvailability s (cast_number v) (startOfHour e d) \<noteq> None \<longrightarrow>
          (\<exists>r. store e s userId b now = (Reject r, s))
          \<and> (\<not> strict_equal v userId \<and> isProvider s (cast_number v) \<noteq> None
               \<and> \<not> startOfHour e d < now \<longrightarrow>
               store e s userId b now = (Reject SlotTaken, s)))
   \<and> ((\<forall>r. fst (store e s userId b now) \<noteq> Reject r) \<longrightarrow>
        (\<exists>v d. b_provider_id b = Some v \<and> b_date b = Some d
           \<and> appointments (snd (store e s userId b now)) =
               appointments s @
                 [\<lparr>a_id = next_id s, user_id = userId, provider_id = cast_number v,
                   date = startOfHour e d, canceled_at = None\<rparr>]))"
proof (intro conjI impI allI)
  show inv: "slot_exclusive (run e (init us) cs)"
    by (rule run_slot_exclusive [OF init_slot_exclusive])
  fix i j
  assume "i < j \<and> j < length (appointments (run e (init us) cs))
          \<and> active (appointments (run e (init us) cs) ! i)
          \<and> active (appointments (run e (init us) cs) ! j)
          \<and> provider_id (appointments (run e (init us) cs) ! i)
              = provider_id (appointments (run e (init us) cs) ! j)"
  with slot_exclusive_nth [OF inv, of i j]
  show "date (appointments (run e (init us) cs) ! i)
              \<noteq> date (appointments (run e (init us) cs) ! j)"
    by blast
next
  assume "slot_exclusive s"
  then show "slot_exclusive (snd (store e s userId b now))"
    by (rule store_slot_exclusive)
next
  assume "b_provider_id b = Some v \<and> b_date b = Some d
        \<and> checkAvailability s (cast_number v) (startOfHour e d) \<noteq> None"
  then show "\<exists>r. store e s userId b now = (Reject r, s)"
    by (auto simp: store_def isValid_def Let_def)
next
  assume "b_provider_id b = Some v \<and> b_date b = Some d
        \<and> checkAvailability s (cast_number v) (startOfHour e d) \<noteq> None"
    and "\<not> strict_equal v userId \<and> isProvider s (cast_number v) \<noteq> None
               \<and> \<not> startOfHour e d < now"
  then show "store e s userId b now = (Reject SlotTaken, s)"
    by (auto simp: store_def isValid_def Let_def isBefore_def)
next
  assume "\<forall>r. fst (store e s userId b now) \<noteq> Reject r"
  then show "\<exists>v d. b_provider_id b = Some v \<and> b_date b = Some d
           \<and> appointments (snd (store e s userId b now)) =
               appointments s @
                 [\<lparr>a_id = next_id s, user_id = userId, provider_id = cast_number v,
                   date = startOfHour e d, canceled_at = None\<rparr>]"
    by (auto simp: store_def isValid_def Let_def create_def split: if_splits option.splits)
qed

text \<open>
  C1 at the small database: the second request for provider 3 at 14:00 is rejected, a
  request for 15:00 is admitted beside the first.
\<close>

theorem slot_exclusivity_witness:
  "appointments (run env0 (init users0)
       [Store 1 request0 1736499600000, Store 2 request0 1736499600000,
        Store 2 request1 1736499600000])
     = [booked, \<lparr>a_id = 2, user_id = 2, provider_id = 3, date = 1736521200000,
                  canceled_at = None\<rparr>]
   \<and> slot_exclusive (run env0 (init users0)
       [Store 1 request0 1736499600000, Store 2 request0 1736499600000,
        Store 2 request1 1736499600000])
   \<and> slot_exclusive db1
   \<and> slot_exclusive (snd (store env0 db1 2 request0 1736499600000))
   \<and> checkAvailability db1 3 (startOfHour env0 1736519400000) = Some booked
   \<and> store env0 db1 2 request0 1736499600000 = (Reject SlotTaken, db1)
   \<and> appointments (snd (store env0 (init users0) 1 request0 1736499600000)) = [booked]"
proof -
  let ?cs = "[Store 1 request0 1736499600000, Store 2 request0 1736499600000,
        Store 2 request1 1736499600000]"
  have r: "appointments (run env0 (init users0) ?cs)
     = [booked, \<lparr>a_id = 2, user_id = 2, provider_id = 3, date = 1736521200000,
                  canceled_at = None\<rparr>]"
    by (simp add: run_def evaluate_store examples)
  have inv: "slot_exclusive db1"
    by (simp add: slot_exclusive_def slots_def active_def examples)
  have taken: "checkAvailability db1 3 (startOfHour env0 1736519400000) = Some booked"
    by (simp add: startOfHour_def checkAvailability_def examples)
  have prov: "isProvider db1 3 \<noteq> None"
    by (simp add: isProvider_def examples)
  have adm: "fst (store env0 (init users0) 1 request0 1736499600000) = Json booked"
    by (simp add: evaluate_store examples)
  from slot_exclusivity [of env0 users0 ?cs db1 2 request0 1736499600000 "Number 3"
      1736519400000]
    slot_exclusivity [of env0 users0 "[]" "init users0" 1 request0 1736499600000 "Number 3"
      1736519400000]
    r inv taken prov adm
  show ?thesis
    by (simp add: startOfHour_def examples)
qed

subsection \<open>C2: the two-hour window\<close>

text \<open>
  Claim C2, amended. For an appointment of the requester that is not canceled, with the
  queue accepting the job, \<^verbatim>\<open>delete\<close> succeeds if and only if the clock is not
  later than two hours before the date: \<open>now \<le> date - 2h\<close>. At the boundary itself
  it succeeds; later it rejects with \<open>TooLateToCancel\<close> and writes nothing.
\<close>

theorem grace_window:
  assumes "findByPk s k = Some ap" and "user_id (row ap) = userId"
    and "canceled_at (row ap) = None"
  shows "delete True s userId k now now' =
           (if now \<le> date (row ap) - 7200000
            then (Json (ap\<lparr>row := (row ap)\<lparr>canceled_at := Some now'\<rparr>\<rparr>),
                  (save s ((row ap)\<lparr>canceled_at := Some now'\<rparr>))
                    \<lparr>jobs := jobs s @ [CancelationMail (ap\<lparr>row := (row ap)\<lparr>canceled_at := Some now'\<rparr>\<rparr>)]\<rparr>)
            else (Reject TooLateToCancel, s))"
  using assms
  by (auto simp: delete_def Let_def subHours_def isBefore_def Queue_add_def save_def)

text \<open>
  C2 as stated fails at the boundary: a cancellation at 12:00 sharp of the 14:00
  appointment is not rejected.
\<close>

theorem grace_window_counterexample:
  "subHours (date booked) 2 = 1736510400000
   \<and> fst (delete True db1 1 1 1736510400000 1736510400000)
       = Json (booked_loaded\<lparr>row := booked\<lparr>canceled_at := Some 1736510400000\<rparr>\<rparr>)"
  by (simp add: delete_def findByPk_def findUser_def subHours_def isBefore_def Queue_add_def
        Let_def examples)

text \<open>C2 one second before the boundary, and one millisecond after it.\<close>

theorem grace_window_witness:
  "findByPk db1 1 = Some booked_loaded \<and> user_id (row booked_loaded) = 1
   \<and> canceled_at (row booked_loaded) = None
   \<and> fst (delete True db1 1 1 1736510399000 1736510399000)
       = Json (booked_loaded\<lparr>row := booked\<lparr>canceled_at := Some 1736510399000\<rparr>\<rparr>)
   \<and> delete True db1 1 1 1736510400001 1736510400001 = (Reject TooLateToCancel, db1)"
proof -
  have h: "user_id (row booked_loaded) = 1" "canceled_at (row booked_loaded) = None"
    by (simp_all add: booked_loaded_def booked_def)
  from grace_window [OF findByPk_db1 h, of 1736510399000 1736510399000]
    grace_window [OF findByPk_db1 h, of 1736510400001 1736510400001]
    findByPk_db1 h
  show ?thesis
    by (simp add: booked_loaded_def booked_def)
qed

subsection \<open>C3: no booking in the past\<close>

text \<open>
  Claim C3, amended. For a valid request that passes the self-booking test and whose
  provider is a provider,
  \<^verbatim>\<open>store\<close> rejects with \<open>PastDate\<close> if and only if the start of the hour of the
  requested date is strictly before the clock. When it is not, the slot is free and the
  client has no booking that day, the appointment is written, and it is the answer when the
  client's user row exists.
\<close>

theorem future_only:
  assumes "b_provider_id b = Some v" and "b_date b = Some t"
    and "\<not> strict_equal v userId" and "isProvider s (cast_number v) \<noteq> None"
  shows "(fst (store e s userId b now) = Reject PastDate) = (startOfHour e t < now)
       \<and> (startOfHour e t < now \<longrightarrow> store e s userId b now = (Reject PastDate, s))
       \<and> (now \<le> startOfHour e t
            \<and> checkAvailability s (cast_number v) (startOfHour e t) = None
            \<and> checkUserHaveAppointment e s userId t = None \<longrightarrow>
            appointments (snd (store e s userId b now)) =
               appointments s @
                 [\<lparr>a_id = next_id s, user_id = userId, provider_id = cast_number v,
                   date = startOfHour e t, canceled_at = None\<rparr>]
            \<and> (findUser s userId \<noteq> None \<longrightarrow>
                 fst (store e s userId b now) =
                   Json \<lparr>a_id = next_id s, user_id = userId, provider_id = cast_number v,
                         date = startOfHour e t, canceled_at = None\<rparr>))"
  using assms
  by (auto simp: store_def isValid_def Let_def isBefore_def create_def findUser_def
        split: option.splits)

text \<open>
  C3 as stated fails where the start of the hour equals the clock: the booking is admitted.
\<close>

theorem future_only_counterexample:
  "startOfHour env0 1736517600000 = 1736517600000
   \<and> fst (store env0 (init users0) 1 \<lparr>b_provider_id = Some (Number 3), b_date = Some 1736517600000\<rparr>
            1736517600000) = Json booked"
  by (simp add: store_def isValid_def isProvider_def isBefore_def startOfHour_def
        checkAvailability_def checkUserHaveAppointment_def create_def findUser_def Let_def
        examples)

text \<open>
  C3 with the start of the hour one second after the clock (admitted), and one millisecond
  before it (rejected).
\<close>

theorem future_only_witness:
  "b_provider_id request0 = Some (Number 3) \<and> b_date request0 = Some 1736519400000
   \<and> \<not> strict_equal (Number 3) 1
   \<and> isProvider (init users0) 3 \<noteq> None
   \<and> startOfHour env0 1736519400000 = 1736517599000 + 1000
   \<and> fst (store env0 (init users0) 1 request0 1736517599000) = Json booked
   \<and> store env0 (init users0) 1 request0 1736517600001 = (Reject PastDate, init users0)"
proof -
  have h: "b_provider_id request0 = Some (Number 3)" "b_date request0 = Some 1736519400000"
    "\<not> strict_equal (Number 3) 1" "isProvider (init users0) (cast_number (Number 3)) \<noteq> None"
    by (simp_all add: isProvider_def examples)
  have free: "checkAvailability (init users0) 3 1736517600000 = None"
    "checkUserHaveAppointment env0 (init users0) 1 1736519400000 = None"
    "findUser (init users0) 1 \<noteq> None"
    by (simp_all add: checkAvailability_def checkUserHaveAppointment_def findUser_def examples)
  from future_only [OF h, of env0 1736517599000] future_only [OF h, of env0 1736517600001]
    h free
  show ?thesis
    by (simp add: startOfHour_def examples)
qed

subsection \<open>C4: canceling twice\<close>

text \<open>
  Claim C4, amended. For an appointment of the requester that is already canceled,
  \<^verbatim>\<open>delete\<close> always rejects and leaves the state as it was, so \<open>canceled_at\<close>
  keeps its value and no job is added. The two-hour test comes first: the reason is
  \<open>TooLateToCancel\<close> when the clock is past two hours before the date, and
  \<open>AlreadyCanceled\<close> otherwise.
\<close>

theorem already_canceled:
  assumes "findByPk s k = Some ap" and "user_id (row ap) = userId"
    and "canceled_at (row ap) \<noteq> None"
  shows "delete up s userId k now now' =
           (Reject (if date (row ap) - 7200000 < now then TooLateToCancel else AlreadyCanceled), s)"
  using assms
  by (auto simp: delete_def Let_def subHours_def isBefore_def)

text \<open>
  C4 as stated fails past the window: canceling the canceled appointment at 14:00 answers
  \<open>TooLateToCancel\<close>.
\<close>

theorem already_canceled_counterexample:
  "delete True db2 1 1 1736517600000 1736517600000 = (Reject TooLateToCancel, db2)"
  by (simp add: delete_def findByPk_def findUser_def subHours_def isBefore_def Let_def
        examples)

text \<open>C4 inside the window and past it.\<close>

theorem already_canceled_witness:
  "findByPk db2 1 = Some (booked_loaded\<lparr>row := booked\<lparr>canceled_at := Some 1736499600000\<rparr>\<rparr>)
   \<and> delete True db2 1 1 1736499660000 1736499660000 = (Reject AlreadyCanceled, db2)
   \<and> delete True db2 1 1 1736517600000 1736517600000 = (Reject TooLateToCancel, db2)"
proof -
  let ?ap = "booked_loaded\<lparr>row := booked\<lparr>canceled_at := Some 1736499600000\<rparr>\<rparr>"
  have h: "user_id (row ?ap) = 1" "canceled_at (row ?ap) \<noteq> None"
    by (simp_all add: booked_loaded_def booked_def)
  from already_canceled [OF findByPk_db2 h, of True 1736499660000 1736499660000]
    already_canceled [OF findByPk_db2 h, of True 1736517600000 1736517600000]
    findByPk_db2
  show ?thesis
    by (simp add: booked_loaded_def booked_def)
qed

subsection \<open>C5: an unknown appointment\<close>

text \<open>
  Claim C5. For a key with no appointment the claim asks for a \<open>NotFound\<close> error;
  \<^verbatim>\<open>delete\<close> reads \<^verbatim>\<open>user_id\<close> of \<^verbatim>\<open>null\<close> instead and throws. Nothing is
  written and nothing is queued.
\<close>

theorem unknown_id_throws:
  "delete True db1 1 999 1736499600000 1736499600000 = (Thrown TypeError, db1)"
  by (simp add: delete_def findByPk_def examples)

subsection \<open>C6: the order of the checks\<close>

text \<open>
  What \<^verbatim>\<open>store\<close> does for every valid body: it rejects with the reason of the first
  failing check of the specified list, where the first check is replaced by the test the
  handler makes, \<^verbatim>\<open>===\<close> on the value sent. For a key sent as a number the two lists are
  the same, and the specified order is the order of the handler.
\<close>

lemma store_first_failure:
  assumes "b_provider_id b = Some v" and "b_date b = Some t"
  shows "case first_failure
                ((\<not> strict_equal v userId, SelfBooking)
                   # tl (checks e s userId (cast_number v) t now)) of
           Some r \<Rightarrow> store e s userId b now = (Reject r, s)
         | None \<Rightarrow> (\<forall>r. fst (store e s userId b now) \<noteq> Reject r)"
  using assms
  by (auto simp: checks_def store_def isValid_def Let_def isBefore_def create_def
        isProvider_def checkAvailability_def checkUserHaveAppointment_def active_def
        find_None_list_ex list_ex_iff
        split: option.splits)

lemma store_first_failure_number:
  assumes "b_provider_id b = Some (Number pid)" and "b_date b = Some t"
  shows "case first_failure (checks e s userId pid t now) of
           Some r \<Rightarrow> store e s userId b now = (Reject r, s)
         | None \<Rightarrow> (\<forall>r. fst (store e s userId b now) \<noteq> Reject r)"
  using store_first_failure [OF assms, where userId = userId and e = e and s = s and now = now]
  by (simp add: checks_def)

text \<open>
  Claim C6. The order breaks at its first check when the key is sent as a string.
  Provider 3 asks for provider 3, with \<^verbatim>\<open>provider_id\<close> the string \<^verbatim>\<open>"3"\<close>: the
  schema accepts the body, and the first check of the specified order fails, with
  \<open>SelfBooking\<close>. The handler compares the string with the number 3 by \<^verbatim>\<open>===\<close>,
  goes on to the later checks, which pass, and answers with the new appointment.
\<close>

theorem validation_order_string_key:
  "isValid request_self
   \<and> first_failure (checks env0 (init users0) 3 3 1736519400000 1736499600000)
       = Some SelfBooking
   \<and> fst (store env0 (init users0) 3 request_self 1736499600000)
       = Json \<lparr>a_id = 1, user_id = 3, provider_id = 3, date = 1736517600000,
                canceled_at = None\<rparr>"
  by (simp add: checks_def evaluate_store examples)

subsection \<open>C7: no booking with oneself\<close>

text \<open>
  With the key sent as a number, a request of user \<open>u\<close> for provider \<open>u\<close> is
  rejected with \<open>SelfBooking\<close> for every date, every clock and every state.
\<close>

lemma self_booking_number:
  "store e s u \<lparr>b_provider_id = Some (Number u), b_date = Some t\<rparr> now
     = (Reject SelfBooking, s)"
  by (simp add: store_def isValid_def)

text \<open>
  Claim C7. With the key sent as the string \<^verbatim>\<open>"3"\<close>, provider 3 books an appointment with
  provider 3: the answer is the appointment, whose client and provider are the same user,
  the row is written and the provider is notified of a booking by themself.
\<close>

theorem self_booking_string_key:
  "store env0 (init users0) 3 request_self 1736499600000
     = (Json \<lparr>a_id = 1, user_id = 3, provider_id = 3, date = 1736517600000,
               canceled_at = None\<rparr>,
        \<lparr>users = users0,
          appointments = [\<lparr>a_id = 1, user_id = 3, provider_id = 3, date = 1736517600000,
                            canceled_at = None\<rparr>],
          next_id = 2,
          notifications =
            [\<lparr>content = ''Novo agendamento de Paula para dia 10 de janeiro, 14:00h'',
              n_user = 3\<rparr>],
          jobs = []\<rparr>)"
  by (simp add: evaluate_store examples)

subsection \<open>C8: a rejected booking writes nothing\<close>

text \<open>
  Claim C8. When \<^verbatim>\<open>store\<close> answers with an error, the state it returns is the state it
  was given: no appointment and no notification is added. The error is one of the six of a
  booking.
\<close>

theorem rejection_atomic:
  assumes "store e s userId b now = (Reject r, s')"
  shows "s' = s \<and> appointments s' = appointments s \<and> notifications s' = notifications s
         \<and> r \<in> {ValidationError, SelfBooking, NotAProvider, PastDate, SlotTaken,
                  DuplicateSameDayBooking}"
  using assms
  by (auto simp: store_def Let_def create_def split: if_splits option.splits prod.splits)

text \<open>C8 at a rejected request for a taken slot.\<close>

theorem rejection_atomic_witness:
  "store env0 db1 2 request0 1736499600000 = (Reject SlotTaken, db1)
   \<and> appointments db1 = [booked] \<and> notifications db1 = []"
proof -
  have r: "store env0 db1 2 request0 1736499600000 = (Reject SlotTaken, db1)"
    by (simp add: store_def isValid_def isProvider_def isBefore_def startOfHour_def
          checkAvailability_def Let_def examples)
  from rejection_atomic [OF r] r show ?thesis
    by (simp add: db1_def)
qed

subsection \<open>C9: the queue fails\<close>

text \<open>
  Claim C9, amended. When the queue refuses the job, the cancellation stays written: the
  appointment read again is the canceled one. The failure is not caught: \<^verbatim>\<open>delete\<close>
  throws and sends no answer.
\<close>

theorem queue_failure:
  assumes "findByPk s k = Some ap" and "user_id (row ap) = userId"
    and "now \<le> date (row ap) - 7200000" and "canceled_at (row ap) = None"
  shows "delete False s userId k now now' =
           (Thrown QueueError, save s ((row ap)\<lparr>canceled_at := Some now'\<rparr>))
       \<and> findByPk (snd (delete False s userId k now now')) k =
           Some (ap\<lparr>row := (row ap)\<lparr>canceled_at := Some now'\<rparr>\<rparr>)"
proof -
  let ?a = "(row ap)\<lparr>canceled_at := Some now'\<rparr>"
  have d: "delete False s userId k now now' = (Thrown QueueError, save s ?a)"
    using assms by (simp add: delete_def Let_def subHours_def isBefore_def Queue_add_def)
  have "findByPk (save s ?a) k = Some (ap\<lparr>row := ?a\<rparr>)"
    by (rule findByPk_save [OF assms(1)])
  with d show ?thesis by simp
qed

text \<open>
  C9 as stated fails: with the queue down the handler does not report success, it throws,
  after the cancellation is written.
\<close>

theorem queue_failure_counterexample:
  "delete False db1 1 1 1736499600000 1736499600000 = (Thrown QueueError, db2)"
  by (simp add: delete_def findByPk_def findUser_def subHours_def isBefore_def Queue_add_def
        Let_def save_def examples)

text \<open>C9 at the small database.\<close>

theorem queue_failure_witness:
  "findByPk db1 1 = Some booked_loaded
   \<and> delete False db1 1 1 1736499600000 1736499600000 = (Thrown QueueError, db2)
   \<and> findByPk db2 1 = Some (booked_loaded\<lparr>row := booked\<lparr>canceled_at := Some 1736499600000\<rparr>\<rparr>)"
proof -
  have h: "user_id (row booked_loaded) = 1" "1736499600000 \<le> date (row booked_loaded) - 7200000"
    "canceled_at (row booked_loaded) = None"
    by (simp_all add: booked_loaded_def booked_def)
  have s: "save db1 (booked\<lparr>canceled_at := Some 1736499600000\<rparr>) = db2"
    by (simp add: save_def examples)
  note q = queue_failure [OF findByPk_db1 h, of 1736499600000]
  from q s have d: "delete False db1 1 1 1736499600000 1736499600000 = (Thrown QueueError, db2)"
    by (simp add: booked_loaded_def)
  from q have "findByPk db2 1 = Some (booked_loaded\<lparr>row := booked\<lparr>canceled_at := Some 1736499600000\<rparr>\<rparr>)"
    unfolding d by (simp add: booked_loaded_def)
  with d findByPk_db1 show ?thesis
    by simp
qed

subsection \<open>C10: what a cancellation changes\<close>

text \<open>
  Claim C10. A successful \<^verbatim>\<open>delete\<close> on a table with a primary key changes
  \<open>canceled_at\<close> of the row with the key and nothing else: every other column of
  that row, every other row, the users, the notifications and the next key are as before.
  The answer is the loaded appointment with the new \<open>canceled_at\<close>, which is what
  reading the key again gives.
\<close>

theorem cancellation_frame:
  assumes "delete up s userId k now now' = (Json ap', s')"
    and "primary_key s"
  shows "\<exists>ap. findByPk s k = Some ap
           \<and> ap' = ap\<lparr>row := (row ap)\<lparr>canceled_at := Some now'\<rparr>\<rparr>
           \<and> a_id (row ap') = k
           \<and> user_id (row ap') = user_id (row ap)
           \<and> provider_id (row ap') = provider_id (row ap)
           \<and> date (row ap') = date (row ap)
           \<and> appointments s' =
               map (\<lambda>a. if a_id a = k then a\<lparr>canceled_at := Some now'\<rparr> else a) (appointments s)
           \<and> users s' = users s \<and> next_id s' = next_id s
           \<and> notifications s' = notifications s
           \<and> findByPk s' k = Some ap'"
proof -
  from assms(1) obtain ap where ap: "findByPk s k = Some ap"
    by (auto simp: delete_def split: option.splits)
  let ?a = "(row ap)\<lparr>canceled_at := Some now'\<rparr>"
  from assms(1) ap have r: "ap' = ap\<lparr>row := ?a\<rparr>"
    and s': "s' = (save s ?a)\<lparr>jobs := jobs s @ [CancelationMail (ap\<lparr>row := ?a\<rparr>)]\<rparr>"
    by (auto simp: delete_def Let_def Queue_add_def save_def split: if_splits option.splits)
  from assms(2) have keys: "distinct (map a_id (appointments s))"
    by (simp add: primary_key_def)
  note in_set = findByPk_Some(1) [OF ap] and key = findByPk_Some(2) [OF ap]
    and found = findByPk_Some(3) [OF ap]
  have apps: "appointments s' =
      map (\<lambda>a. if a_id a = k then a\<lparr>canceled_at := Some now'\<rparr> else a) (appointments s)"
    using save_only_canceled_at [OF keys in_set key, of "Some now'"] key
    by (simp add: s' save_def)
  have "findByPk (save s ?a) k = Some (ap\<lparr>row := ?a\<rparr>)"
    by (rule findByPk_save [OF ap])
  then have again: "findByPk s' k = Some ap'"
    by (simp add: s' r findByPk_jobs)
  from ap r apps again key show ?thesis
    by (simp add: s' save_def)
qed

text \<open>C10 at the small database.\<close>

theorem cancellation_frame_witness:
  "primary_key db1
   \<and> delete True db1 1 1 1736499600000 1736499600000
       = (Json (booked_loaded\<lparr>row := booked\<lparr>canceled_at := Some 1736499600000\<rparr>\<rparr>),
          db2\<lparr>jobs := [CancelationMail
                 (booked_loaded\<lparr>row := booked\<lparr>canceled_at := Some 1736499600000\<rparr>\<rparr>)]\<rparr>)
   \<and> appointments db2 = [booked\<lparr>canceled_at := Some 1736499600000\<rparr>]
   \<and> users db2 = users db1 \<and> next_id db2 = next_id db1
   \<and> findByPk (db2\<lparr>jobs := [CancelationMail
                 (booked_loaded\<lparr>row := booked\<lparr>canceled_at := Some 1736499600000\<rparr>\<rparr>)]\<rparr>) 1
       = Some (booked_loaded\<lparr>row := booked\<lparr>canceled_at := Some 1736499600000\<rparr>\<rparr>)"
proof -
  have pk: "primary_key db1"
    by (simp add: primary_key_def examples)
  have d: "delete True db1 1 1 1736499600000 1736499600000
       = (Json (booked_loaded\<lparr>row := booked\<lparr>canceled_at := Some 1736499600000\<rparr>\<rparr>),
          db2\<lparr>jobs := [CancelationMail
                 (booked_loaded\<lparr>row := booked\<lparr>canceled_at := Some 1736499600000\<rparr>\<rparr>)]\<rparr>)"
    by (simp add: delete_def findByPk_def findUser_def subHours_def isBefore_def Queue_add_def
          Let_def save_def examples)
  from cancellation_frame [OF d pk] pk d findByPk_db1 show ?thesis
    by (simp add: examples)
qed

end
